theory Spec2Isabelle
  imports Main
begin

unbundle bit_operations_syntax

section \<open>Values, errors and interpreter state\<close>

text \<open>
  The model follows \<^verbatim>\<open>src/Main.cpp\<close>, an interpreter for the language BIT.
  C++ \<^verbatim>\<open>int\<close> is modelled as \<^typ>\<open>int\<close>; the two places where 32-bit arithmetic can
  leave the range (\<^verbatim>\<open>bits << 1\<close> in \<^verbatim>\<open>parse_bits\<close> and \<^verbatim>\<open>value.value + 1\<close> in
  \<^verbatim>\<open>Expression3Node::value\<close>) wrap around explicitly through \<open>int32\<close>.
\<close>

definition int32 :: "int \<Rightarrow> int" where
  "int32 i = signed_take_bit 31 i"

definition INT_MIN :: int where
  "INT_MIN = - (2 ^ 31)"

text \<open>\<^verbatim>\<open>enum ValueType { UNDEFINED = 0, BIT = 1, ADDRESS_OF_A_BIT = 2 }\<close>. The source
  compares enumerators with \<^verbatim>\<open>int\<close> payloads, so their numeric encoding is kept.\<close>

datatype ValueType = UNDEFINED | BIT | ADDRESS_OF_A_BIT

fun ValueType_int :: "ValueType \<Rightarrow> int" where
  "ValueType_int UNDEFINED = 0"
| "ValueType_int BIT = 1"
| "ValueType_int ADDRESS_OF_A_BIT = 2"

text \<open>\<^verbatim>\<open>struct Value { int value; ValueType type; }\<close>\<close>

record Value =
  v_value :: int
  v_type :: ValueType

text \<open>
  \<^verbatim>\<open>show_parser_error\<close> and \<^verbatim>\<open>show_runtime_error\<close> print a message and call
  \<^verbatim>\<open>exit(1)\<close>; here they are results. \<open>ParserError\<close> carries the message and the
  scanner position that is printed with it. \<open>OutOfRange\<close> is the uncaught
  \<^verbatim>\<open>std::out_of_range\<close> of \<^verbatim>\<open>string::at\<close> and \<^verbatim>\<open>map::at\<close>, \<open>NullDereference\<close> a call
  through a \<^verbatim>\<open>NULL\<close> node pointer, and \<open>InputFailure\<close> a read from an exhausted
  standard input.
\<close>

datatype error =
    ParserError string nat
  | RuntimeError string
  | OutOfRange
  | NullDereference
  | InputFailure

text \<open>\<^verbatim>\<open>std::to_string(int)\<close>, used in the runtime error messages.\<close>

fun to_string_nat :: "nat \<Rightarrow> string" where
  "to_string_nat n =
     (if n < 10 then [''0123456789'' ! n]
      else to_string_nat (n div 10) @ [''0123456789'' ! (n mod 10)])"

declare to_string_nat.simps [simp del]

definition to_string :: "int \<Rightarrow> string" where
  "to_string i = (if i < 0 then ''-'' @ to_string_nat (nat (- i)) else to_string_nat (nat i))"

text \<open>
  The global interpreter variables: \<^verbatim>\<open>jump_register\<close>, \<^verbatim>\<open>memory\<close>
  (a \<^verbatim>\<open>map<int, Value>\<close>), \<^verbatim>\<open>output_buffer\<close>, and the two standard streams as the
  lists of integers still to be read and already written.
\<close>

record state =
  jump_register :: int
  memory :: "int \<rightharpoonup> Value"
  output_buffer :: "int list"
  cin :: "int list"
  cout :: "int list"

definition jump_register_address :: int where
  "jump_register_address = - 1"

definition print_ascii :: bool where
  "print_ascii = False"

text \<open>The state after \<^verbatim>\<open>parse\<close>: \<^verbatim>\<open>memory.clear(); jump_register = 0;\<close>\<close>

definition initial_state :: "int list \<Rightarrow> state" where
  "initial_state inp =
     \<lparr>jump_register = 0, memory = Map.empty, output_buffer = [], cin = inp, cout = []\<rparr>"

section \<open>Memory and input/output\<close>

definition memory_read :: "int \<Rightarrow> state \<Rightarrow> error + (Value \<times> state)" where
  "memory_read address s =
     (if address = jump_register_address
      then Inr (\<lparr>v_value = jump_register s, v_type = BIT\<rparr>, s)
      else if address > jump_register_address
      then (case memory s address of
              None \<Rightarrow>
                Inr (\<lparr>v_value = 0, v_type = UNDEFINED\<rparr>,
                     s\<lparr>memory := (memory s)(address \<mapsto> \<lparr>v_value = 0, v_type = UNDEFINED\<rparr>)\<rparr>)
            | Some v \<Rightarrow> Inr (v, s))
      else Inl (RuntimeError (''Invalid memory address: '' @ to_string address @ ''.'')))"

definition memory_write :: "int \<Rightarrow> Value \<Rightarrow> state \<Rightarrow> error + state" where
  "memory_write address v s =
     (if v_type v = BIT \<and> v_value v \<noteq> 0 \<and> v_value v \<noteq> 1
      then Inl (RuntimeError (''Illegal value: '' @ to_string (v_value v)))
      else if address = jump_register_address
      then (if v_type v = ADDRESS_OF_A_BIT
            then Inl (RuntimeError ''The jump register can't store address-of-a-bit values.'')
            else Inr (s\<lparr>jump_register := v_value v\<rparr>))
      else if address > jump_register_address
      then Inr (s\<lparr>memory := (memory s)(address \<mapsto> v)\<rparr>)
      else Inl (RuntimeError (''Invalid memory address: '' @ to_string address @ ''.'')))"

text \<open>
  \<^verbatim>\<open>print_bit\<close>: with \<^verbatim>\<open>print_ascii\<close> eight bits are collected in \<^verbatim>\<open>output_buffer\<close> and
  packed, last bit lowest, into one \<^verbatim>\<open>char\<close>; otherwise the bit itself is written.
\<close>

definition pack_character :: "int list \<Rightarrow> int" where
  "pack_character buf =
     take_bit 8 (fold (\<lambda>(pos, b) c. c OR push_bit pos b) (zip [0..<length buf] (rev buf)) 0)"

definition print_bit :: "int \<Rightarrow> state \<Rightarrow> state" where
  "print_bit b s =
     (if print_ascii
      then (let buf = output_buffer s @ [b] in
            if length buf = 8
            then s\<lparr>output_buffer := [], cout := cout s @ [pack_character buf]\<rparr>
            else s\<lparr>output_buffer := buf\<rparr>)
      else s\<lparr>cout := cout s @ [b]\<rparr>)"

definition read_bit :: "state \<Rightarrow> error + (int \<times> state)" where
  "read_bit s =
     (case cin s of
        [] \<Rightarrow> Inl InputFailure
      | b # rest \<Rightarrow>
          if b \<noteq> 0 \<and> b \<noteq> 1 then Inl (RuntimeError ''Invalid value read.'')
          else Inr (b, s\<lparr>cin := rest\<rparr>))"

section \<open>Expressions\<close>

text \<open>
  The subclasses of \<^verbatim>\<open>ExpressionNode\<close>. \<open>Expression1Node left right\<close> has a nullable
  \<^verbatim>\<open>right\<close>; \<open>Expression5Node constant\<close>; \<open>VariableNode address\<close>.
\<close>

datatype ExpressionNode =
    Expression1Node ExpressionNode "ExpressionNode option"
  | Expression2Node ExpressionNode
  | Expression3Node ExpressionNode
  | Expression4Node ExpressionNode
  | Expression5Node int
  | VariableNode int

text \<open>The virtual method \<^verbatim>\<open>ExpressionNode::value\<close>, one equation per override.\<close>

fun node_value :: "ExpressionNode \<Rightarrow> state \<Rightarrow> error + (Value \<times> state)" where
  "node_value (Expression1Node left None) s = node_value left s"
| "node_value (Expression1Node left (Some right)) s =
     (case node_value left s of
        Inl e \<Rightarrow> Inl e
      | Inr (value_left, s1) \<Rightarrow>
          (case node_value right s1 of
             Inl e \<Rightarrow> Inl e
           | Inr (value_right, s2) \<Rightarrow>
               if v_value value_left = ValueType_int ADDRESS_OF_A_BIT
                  \<or> v_value value_right = ValueType_int ADDRESS_OF_A_BIT
               then Inl (RuntimeError ''The NAND operator requires bit values.'')
               else Inr (\<lparr>v_value = NOT (v_value value_left AND v_value value_right),
                          v_type = BIT\<rparr>, s2)))"
| "node_value (Expression2Node child) s =
     (case node_value child s of
        Inl e \<Rightarrow> Inl e
      | Inr (v, s1) \<Rightarrow>
          if v_value v = ValueType_int ADDRESS_OF_A_BIT
          then Inl (RuntimeError ''The THE ADDRESS OF operator requires a bit value.'')
          else if v_value v < jump_register_address
          then Inl (RuntimeError (''Invalid memory address: '' @ to_string (v_value v) @ ''.''))
          else if v_value v = jump_register_address
          then Inl (RuntimeError
                 ''The THE ADDRESS OF operator can't be used with the jump register.'')
          else Inr (\<lparr>v_value = v_value v, v_type = ADDRESS_OF_A_BIT\<rparr>, s1))"
| "node_value (Expression3Node child) s =
     (case node_value child s of
        Inl e \<Rightarrow> Inl e
      | Inr (v, s1) \<Rightarrow>
          if v_value v = ValueType_int BIT
          then Inl (RuntimeError
                 ''The THE VALUE BEYOND operator requires an address-of-a-bit value.'')
          else if v_value v < 0
          then Inl (RuntimeError (''Invalid memory address: '' @ to_string (v_value v) @ ''.''))
          else (case memory_read (int32 (v_value v + 1)) s1 of
                  Inl e \<Rightarrow> Inl e
                | Inr (result, s2) \<Rightarrow>
                    if v_value result = ValueType_int ADDRESS_OF_A_BIT
                    then Inl (RuntimeError ''Variable must contain a bit value.'')
                    else Inr (result, s2)))"
| "node_value (Expression4Node child) s =
     (case node_value child s of
        Inl e \<Rightarrow> Inl e
      | Inr (v, s1) \<Rightarrow>
          if v_value v = ValueType_int BIT
          then Inl (RuntimeError
                 ''The THE VALUE BEYOND operator requires an address-of-a-bit value.'')
          else if v_value v < 0
          then Inl (RuntimeError (''Invalid memory address: '' @ to_string (v_value v) @ ''.''))
          else (case memory_read (v_value v) s1 of
                  Inl e \<Rightarrow> Inl e
                | Inr (result, s2) \<Rightarrow>
                    if v_value result = ValueType_int ADDRESS_OF_A_BIT
                    then Inl (RuntimeError ''Variable must contain a bit value.'')
                    else Inr (result, s2)))"
| "node_value (Expression5Node constant) s =
     Inr (\<lparr>v_value = constant, v_type = UNDEFINED\<rparr>, s)"
| "node_value (VariableNode address) s =
     (if address \<ge> jump_register_address then memory_read address s
      else Inl (RuntimeError (''Illegal address: '' @ to_string address @ ''.'')))"

section \<open>Instructions\<close>

text \<open>
  The subclasses of \<^verbatim>\<open>InstructionNode\<close>: \<open>CommandNode print_value\<close> and
  \<open>AssignmentNode address address_expression expression\<close>. \<^verbatim>\<open>parse_assignment\<close>
  always sets \<^verbatim>\<open>expression\<close>; it sets \<^verbatim>\<open>address_expression\<close> only when the target
  is a general expression, and then leaves \<^verbatim>\<open>address\<close> at \<^verbatim>\<open>INT_MIN\<close>. So only
  \<^verbatim>\<open>address_expression\<close> is modelled as a pointer that may be \<^verbatim>\<open>NULL\<close>.
\<close>

datatype InstructionNode =
    CommandNode int
  | AssignmentNode int "ExpressionNode option" ExpressionNode

text \<open>
  \<^verbatim>\<open>InstructionNode::run\<close>. In \<^verbatim>\<open>AssignmentNode::run\<close> both arguments of
  \<^verbatim>\<open>memory_write\<close> are evaluated before the call; C++ leaves their order open, the
  model evaluates the address first. Reading only ever adds default entries to
  \<^verbatim>\<open>memory\<close>, so the order decides nothing but which of two errors is reported.
\<close>

fun run_instruction :: "InstructionNode \<Rightarrow> state \<Rightarrow> error + state" where
  "run_instruction (CommandNode print_value) s =
     (if print_value = 0 \<or> print_value = 1 then Inr (print_bit print_value s)
      else (case read_bit s of
              Inl e \<Rightarrow> Inl e
            | Inr (b, s1) \<Rightarrow>
                memory_write jump_register_address \<lparr>v_value = b, v_type = BIT\<rparr> s1))"
| "run_instruction (AssignmentNode address address_expression expression) s =
     (if address \<ge> jump_register_address
      then (case node_value expression s of
              Inl e \<Rightarrow> Inl e
            | Inr (v, s1) \<Rightarrow> memory_write address v s1)
      else (case address_expression of
              None \<Rightarrow> Inl NullDereference
            | Some ax \<Rightarrow>
                (case node_value ax s of
                   Inl e \<Rightarrow> Inl e
                 | Inr (a, s1) \<Rightarrow>
                     (case node_value expression s1 of
                        Inl e \<Rightarrow> Inl e
                      | Inr (v, s2) \<Rightarrow> memory_write (v_value a) v s2))))"

section \<open>Control flow\<close>

text \<open>
  \<^verbatim>\<open>class GotoNode { Value next; int next_if_zero; int next_if_one; }\<close>, constructed
  as \<^verbatim>\<open>next({ -1, BIT }), next_if_zero(-1), next_if_one(-1)\<close>. The field \<^verbatim>\<open>next\<close> is
  called \<open>g_next\<close> here.
\<close>

record GotoNode =
  g_next :: Value
  next_if_zero :: int
  next_if_one :: int

definition new_GotoNode :: GotoNode where
  "new_GotoNode =
     \<lparr>g_next = \<lparr>v_value = - 1, v_type = BIT\<rparr>, next_if_zero = - 1, next_if_one = - 1\<rparr>"

definition next_line_number :: "GotoNode \<Rightarrow> state \<Rightarrow> error + (int \<times> state)" where
  "next_line_number g s =
     (if v_value (g_next g) > - 1
      then (if v_type (g_next g) = ADDRESS_OF_A_BIT
            then (case memory_read (v_value (g_next g)) s of
                    Inl e \<Rightarrow> Inl e
                  | Inr (v, s1) \<Rightarrow> Inr (v_value v, s1))
            else Inr (v_value (g_next g), s))
      else if next_if_zero g > - 1 \<and> jump_register s = 0 then Inr (next_if_zero g, s)
      else if next_if_one g > - 1 \<and> jump_register s = 1 then Inr (next_if_one g, s)
      else Inr (- 1, s))"

text \<open>
  \<^verbatim>\<open>class LineNode { int line_number; InstructionNode* instruction; GotoNode* go; }\<close>;
  \<^verbatim>\<open>parse_line\<close> always sets \<^verbatim>\<open>instruction\<close>, and \<^verbatim>\<open>go\<close> stays \<^verbatim>\<open>NULL\<close> when the line
  has no goto. \<^verbatim>\<open>class CodeNode { map<int, LineNode> lines; int first_line_number; }\<close>.
\<close>

record LineNode =
  line_number :: int
  instruction :: InstructionNode
  go :: "GotoNode option"

record CodeNode =
  lines :: "int \<rightharpoonup> LineNode"
  first_line_number :: int

text \<open>
  The \<^verbatim>\<open>while (next_line_number >= 0)\<close> loop of \<^verbatim>\<open>CodeNode::run\<close>. A BIT program may
  loop forever, so the loop is a partial function: \<open>None\<close> means that it does not
  return, \<open>Some (Inl e)\<close> that the run was stopped by the error \<open>e\<close>, and
  \<open>Some (Inr s)\<close> that it halted in state \<open>s\<close>.
\<close>

partial_function (option) run_while :: "CodeNode \<Rightarrow> int \<Rightarrow> state \<Rightarrow> (error + state) option" where
  "run_while code next_line s =
     (if next_line \<ge> 0
      then (case lines code next_line of
              None \<Rightarrow>
                Some (Inl (RuntimeError
                  (''No line exists with number '' @ to_string next_line @ ''.'')))
            | Some line \<Rightarrow>
                (case run_instruction (instruction line) s of
                   Inl e \<Rightarrow> Some (Inl e)
                 | Inr s1 \<Rightarrow>
                     (case go line of
                        None \<Rightarrow> Some (Inr s1)
                      | Some g \<Rightarrow>
                          (case next_line_number g s1 of
                             Inl e \<Rightarrow> Some (Inl e)
                           | Inr (n, s2) \<Rightarrow> run_while code n s2))))
      else Some (Inr s))"

definition CodeNode_run :: "CodeNode \<Rightarrow> state \<Rightarrow> (error + state) option" where
  "CodeNode_run code s =
     (case lines code (first_line_number code) of
        None \<Rightarrow> Some (Inl OutOfRange)
      | Some line \<Rightarrow>
          (case run_instruction (instruction line) s of
             Inl e \<Rightarrow> Some (Inl e)
           | Inr s1 \<Rightarrow>
               (case go line of
                  None \<Rightarrow> Some (Inr s1)
                | Some g \<Rightarrow>
                    (case next_line_number g s1 of
                       Inl e \<Rightarrow> Some (Inl e)
                     | Inr (n, s2) \<Rightarrow> run_while code n s2))))"

section \<open>Scanner\<close>

text \<open>
  The scanner works on the global \<^verbatim>\<open>input\<close> string and the cursor \<^verbatim>\<open>position\<close>;
  \<^verbatim>\<open>length\<close> is the length of \<^verbatim>\<open>input\<close>. Here the input is the argument \<open>inp\<close>, and
  every function takes the position and returns the new one.

  \<^verbatim>\<open>is_whitespace\<close> is \<^verbatim>\<open>isspace\<close> of the C locale: space, tab, line feed, vertical tab,
  form feed and carriage return.
\<close>

definition is_whitespace :: "char \<Rightarrow> bool" where
  "is_whitespace character \<longleftrightarrow>
     character \<in> {CHR '' '', CHR 0x09, CHR 0x0A, CHR 0x0B, CHR 0x0C, CHR 0x0D}"

function skip_whitespace :: "string \<Rightarrow> nat \<Rightarrow> nat" where
  "skip_whitespace inp position =
     (if position < length inp
      then (if \<not> is_whitespace (inp ! position) then position
            else skip_whitespace inp (position + 1))
      else position)"
  by pat_completeness auto
termination
  by (relation "measure (\<lambda>(inp, position). length inp - position)") auto

declare skip_whitespace.simps [simp del]

text \<open>\<^verbatim>\<open>bool consume(char)\<close>: the flag and the new position.\<close>

definition consume_char :: "char \<Rightarrow> string \<Rightarrow> nat \<Rightarrow> bool \<times> nat" where
  "consume_char character inp position =
     (if position < length inp \<and> inp ! position = character then (True, position + 1)
      else (False, position))"

text \<open>
  \<^verbatim>\<open>void consume(string)\<close>: the loop over the characters of the symbol; the second
  argument is the whole symbol, for the message.
\<close>

fun consume_chars :: "string \<Rightarrow> string \<Rightarrow> string \<Rightarrow> nat \<Rightarrow> error + nat" where
  "consume_chars [] symbol inp position = Inr position"
| "consume_chars (character # rest) symbol inp position =
     (let consumed = consume_char character inp (skip_whitespace inp position) in
      if \<not> fst consumed
      then Inl (ParserError (''Illegal symbol found. '' @ symbol @ '' was expected.'')
                  (snd consumed))
      else consume_chars rest symbol inp (snd consumed))"

definition consume :: "string \<Rightarrow> string \<Rightarrow> nat \<Rightarrow> error + nat" where
  "consume symbol inp position = consume_chars symbol symbol inp position"

text \<open>
  \<^verbatim>\<open>bool check(string)\<close>. The inner \<^verbatim>\<open>while (is_whitespace(input->at(positionTemp)))\<close>
  returns \<open>None\<close> where the source returns \<^verbatim>\<open>false\<close> from inside the loop, and
  \<^verbatim>\<open>string::at\<close> throws when \<^verbatim>\<open>positionTemp\<close> has reached the end of the input.
\<close>

function check_whitespace :: "string \<Rightarrow> nat \<Rightarrow> error + nat option" where
  "check_whitespace inp positionTemp =
     (if positionTemp < length inp
      then (if is_whitespace (inp ! positionTemp)
            then (if positionTemp + 1 \<ge> length inp then Inr None
                  else check_whitespace inp (positionTemp + 1))
            else Inr (Some positionTemp))
      else Inl OutOfRange)"
  by pat_completeness auto
termination
  by (relation "measure (\<lambda>(inp, positionTemp). length inp - positionTemp)") auto

declare check_whitespace.simps [simp del]

fun check_chars :: "string \<Rightarrow> string \<Rightarrow> nat \<Rightarrow> error + bool" where
  "check_chars [] inp positionTemp = Inr True"
| "check_chars (character # rest) inp positionTemp =
     (case check_whitespace inp positionTemp of
        Inl e \<Rightarrow> Inl e
      | Inr None \<Rightarrow> Inr False
      | Inr (Some p) \<Rightarrow>
          if inp ! p \<noteq> character then Inr False else check_chars rest inp (p + 1))"

definition check :: "string \<Rightarrow> string \<Rightarrow> nat \<Rightarrow> error + bool" where
  "check symbol inp position =
     (if position \<ge> length inp then Inr False else check_chars symbol inp position)"

text \<open>The symbols used by the parsing functions below.\<close>

definition GOTO :: string where "GOTO = ''GOTO''"
definition IF_THE_JUMP_REGISTER_IS :: string where
  "IF_THE_JUMP_REGISTER_IS = ''IFTHEJUMPREGISTERIS''"
definition EQUAL_TO :: string where "EQUAL_TO = ''EQUALTO''"
definition VARIABLE :: string where "VARIABLE = ''VARIABLE''"
definition ZERO :: string where "ZERO = ''ZERO''"
definition ONE :: string where "ONE = ''ONE''"

section \<open>Parser: bits and gotos\<close>

text \<open>Sequencing of steps that may fail: the first error ends the parse.\<close>

definition then_do :: "error + 'a \<Rightarrow> ('a \<Rightarrow> error + 'b) \<Rightarrow> error + 'b" where
  "then_do step continue = (case step of Inl e \<Rightarrow> Inl e | Inr x \<Rightarrow> continue x)"

definition parse_bit :: "string \<Rightarrow> nat \<Rightarrow> error + (int \<times> nat)" where
  "parse_bit inp position =
     (let p = skip_whitespace inp position in
      then_do (check ZERO inp p) (\<lambda>is_zero.
        if is_zero then then_do (consume ZERO inp p) (\<lambda>p1. Inr (0, p1))
        else then_do (check ONE inp p) (\<lambda>is_one.
          if is_one then then_do (consume ONE inp p) (\<lambda>p1. Inr (1, p1))
          else Inl (ParserError ''Illegal symbol found. Bit constant was expected.'' p))))"

text \<open>
  \<^verbatim>\<open>parse_bits\<close> loops while a further \<^verbatim>\<open>ZERO\<close> or \<^verbatim>\<open>ONE\<close> follows. Each round
  consumes at least one character, which is what its termination rests on.
\<close>

lemma drop_eq_ConsD:
  "drop p inp = x # xs \<Longrightarrow> p < length inp \<and> inp ! p = x \<and> drop (Suc p) inp = xs"
  by (metis Cons_nth_drop_Suc drop_all list.distinct(1) list.inject not_le_imp_less)

lemma skip_whitespace_eq:
  "skip_whitespace inp p = p + length (takeWhile is_whitespace (drop p inp))"
proof (induction inp p rule: skip_whitespace.induct)
  case (1 inp position)
  show ?case
  proof (cases "position < length inp")
    case False
    then show ?thesis by (simp add: skip_whitespace.simps [of inp position])
  next
    case True
    then have d: "drop position inp = inp ! position # drop (Suc position) inp"
      by (simp add: Cons_nth_drop_Suc)
    show ?thesis
    proof (cases "is_whitespace (inp ! position)")
      case ws: True
      with True 1 have "skip_whitespace inp (position + 1)
          = position + 1 + length (takeWhile is_whitespace (drop (position + 1) inp))"
        by simp
      with True ws d show ?thesis
        by (simp add: skip_whitespace.simps [of inp position])
    next
      case False
      with True d show ?thesis
        by (simp add: skip_whitespace.simps [of inp position])
    qed
  qed
qed

lemma skip_whitespace_ge: "position \<le> skip_whitespace inp position"
  by (simp add: skip_whitespace_eq)

lemma consume_chars_advances:
  "consume_chars cs symbol inp p = Inr p' \<Longrightarrow>
   p \<le> p' \<and> (cs \<noteq> [] \<longrightarrow> p < p' \<and> p' \<le> length inp)"
proof (induction cs arbitrary: p)
  case Nil
  then show ?case by simp
next
  case (Cons c cs)
  let ?q = "skip_whitespace inp p"
  from Cons.prems have ok: "?q < length inp"
    and rest: "consume_chars cs symbol inp (Suc ?q) = Inr p'"
    by (auto simp add: consume_char_def Let_def split: if_splits)
  from Cons.IH [OF rest] have "Suc ?q \<le> p'" and "cs \<noteq> [] \<longrightarrow> p' \<le> length inp"
    by simp_all
  moreover from rest have "cs = [] \<longrightarrow> p' = Suc ?q"
    by auto
  moreover have "p \<le> ?q"
    by (rule skip_whitespace_ge)
  ultimately show ?case
    using ok by auto
qed

lemma parse_bit_advances:
  assumes "parse_bit inp position = Inr (b, p1)"
  shows "position < p1 \<and> p1 \<le> length inp"
proof -
  let ?q = "skip_whitespace inp position"
  from assms have "consume_chars ZERO ZERO inp ?q = Inr p1 \<or> consume_chars ONE ONE inp ?q = Inr p1"
    by (auto simp add: parse_bit_def then_do_def Let_def consume_def
        split: sum.splits if_splits)
  then have "?q < p1 \<and> p1 \<le> length inp"
    using consume_chars_advances [of ZERO ZERO inp ?q p1]
      consume_chars_advances [of ONE ONE inp ?q p1]
    by (auto simp add: ZERO_def ONE_def)
  with skip_whitespace_ge [of position inp] show ?thesis
    by simp
qed

text \<open>
  The loop \<^verbatim>\<open>while (check(ZERO) || check(ONE)) { bits = (bits << 1) | parse_bit(); }\<close>.
  The shift is taken in 32 bits: it wraps around where the value no longer fits an
  \<^verbatim>\<open>int\<close>.
\<close>

function parse_bits_loop :: "int \<Rightarrow> string \<Rightarrow> nat \<Rightarrow> error + (int \<times> nat)" where
  "parse_bits_loop bits inp position =
     (case check ZERO inp position of
        Inl e \<Rightarrow> Inl e
      | Inr is_zero \<Rightarrow>
          (case (if is_zero then Inr True else check ONE inp position) of
             Inl e \<Rightarrow> Inl e
           | Inr again \<Rightarrow>
               if again
               then (case parse_bit inp position of
                       Inl e \<Rightarrow> Inl e
                     | Inr (b, p1) \<Rightarrow>
                         parse_bits_loop (int32 (push_bit 1 bits OR b)) inp p1)
               else Inr (bits, position)))"
  by pat_completeness auto
termination
  by (relation "measure (\<lambda>(bits, inp, position). length inp - position)")
    (auto dest!: parse_bit_advances)

declare parse_bits_loop.simps [simp del]

definition parse_bits :: "string \<Rightarrow> nat \<Rightarrow> error + (int \<times> nat)" where
  "parse_bits inp position =
     then_do (parse_bit inp (skip_whitespace inp position))
       (\<lambda>(b, p1). parse_bits_loop b inp p1)"

text \<open>
  \<^verbatim>\<open>parse_goto\<close>. After \<^verbatim>\<open>consume(VARIABLE)\<close> the source has the statement
  \<^verbatim>\<open>node->next.type == ADDRESS_OF_A_BIT;\<close>, a comparison whose result is dropped; it is
  the binding \<open>unused\<close> below.
\<close>

definition parse_goto :: "string \<Rightarrow> nat \<Rightarrow> error + (GotoNode \<times> nat)" where
  "parse_goto inp position =
     (let node = new_GotoNode in
      then_do (consume GOTO inp position) (\<lambda>p1.
      then_do (check VARIABLE inp p1) (\<lambda>is_variable.
      then_do (if is_variable
               then then_do (consume VARIABLE inp p1) (\<lambda>p.
                      let unused = (v_type (g_next node) = ADDRESS_OF_A_BIT) in Inr p)
               else Inr p1) (\<lambda>p2.
      then_do (parse_bits inp p2) (\<lambda>(address1, p3).
      then_do (check IF_THE_JUMP_REGISTER_IS inp p3) (\<lambda>conditional.
        if conditional
        then
          then_do (consume IF_THE_JUMP_REGISTER_IS inp p3) (\<lambda>p4.
          then_do (check EQUAL_TO inp p4) (\<lambda>equal_to.
          then_do (if equal_to then consume EQUAL_TO inp p4 else Inr p4) (\<lambda>p5.
          then_do (parse_bit inp p5) (\<lambda>(bit1, p6).
            let node1 = (if bit1 = 0 then node\<lparr>next_if_zero := address1\<rparr>
                         else node\<lparr>next_if_one := address1\<rparr>) in
            then_do (check GOTO inp p6) (\<lambda>second.
              if second
              then
                then_do (consume GOTO inp p6) (\<lambda>p7.
                then_do (parse_bits inp p7) (\<lambda>(address2, p8).
                then_do (consume IF_THE_JUMP_REGISTER_IS inp p8) (\<lambda>p9.
                then_do (check EQUAL_TO inp p9) (\<lambda>equal_to2.
                then_do (if equal_to2 then consume EQUAL_TO inp p9 else Inr p9) (\<lambda>p10.
                then_do (parse_bit inp p10) (\<lambda>(bit2, p11).
                  if bit1 = bit2
                  then Inl (ParserError
                    ''Illegal symbol found. Conditional goto with different bit constant was expected.''
                    p11)
                  else Inr (if bit2 = 0 then node1\<lparr>next_if_zero := address2\<rparr>
                            else node1\<lparr>next_if_one := address2\<rparr>, p11)))))))
              else Inr (node1, p6))))))
        else Inr (node\<lparr>g_next := (g_next node)\<lparr>v_value := address1\<rparr>\<rparr>, p3)))))))"

section \<open>Program texts\<close>

text \<open>
  The scanner skips whitespace before every character of a symbol. A text \<open>spells\<close> a
  symbol when it is the symbol's characters with whitespace allowed before each of them:
  both \<^verbatim>\<open>LINENUMBER\<close> and \<^verbatim>\<open> LINE NUMBER\<close> spell \<^verbatim>\<open>LINENUMBER\<close>. \<open>first_char\<close> is the
  first character of a text that is not whitespace, if there is one.
\<close>

definition spells :: "string \<Rightarrow> string \<Rightarrow> bool" where
  "spells symbol text \<longleftrightarrow>
     filter (\<lambda>c. \<not> is_whitespace c) text = symbol \<and> text \<noteq> [] \<and> \<not> is_whitespace (last text)"

definition first_char :: "string \<Rightarrow> char option" where
  "first_char text = (case dropWhile is_whitespace text of [] \<Rightarrow> None | c # _ \<Rightarrow> Some c)"

text \<open>
  A bit-string is a non-empty list of bits, written as the tokens \<^verbatim>\<open>ZERO\<close> and \<^verbatim>\<open>ONE\<close>;
  \<open>binary_value\<close> is the number it denotes, most significant bit first.
\<close>

definition bit_symbol :: "bool \<Rightarrow> string" where
  "bit_symbol b = (if b then ONE else ZERO)"

definition binary_value :: "bool list \<Rightarrow> nat" where
  "binary_value bs = foldl (\<lambda>a b. 2 * a + of_bool b) 0 bs"

definition spelled_bits :: "string list \<Rightarrow> bool list \<Rightarrow> bool" where
  "spelled_bits texts bs \<longleftrightarrow> list_all2 (\<lambda>t b. spells (bit_symbol b) t) texts bs"

text \<open>
  One arm of a conditional goto:
  \<^verbatim>\<open>GOTO <bits> IF THE JUMP REGISTER IS [EQUAL TO] <bit>\<close>, as the texts of its parts.
\<close>

record arm_text =
  goto_text :: string
  address_texts :: "string list"
  if_text :: string
  equal_to_text :: string
  bit_text :: string

definition arm_string :: "arm_text \<Rightarrow> string" where
  "arm_string a =
     goto_text a @ concat (address_texts a) @ if_text a @ equal_to_text a @ bit_text a"

definition spelled_arm :: "arm_text \<Rightarrow> bool list \<Rightarrow> bool \<Rightarrow> bool" where
  "spelled_arm a bs b \<longleftrightarrow>
     spells GOTO (goto_text a) \<and> spelled_bits (address_texts a) bs \<and> bs \<noteq> []
     \<and> spells IF_THE_JUMP_REGISTER_IS (if_text a)
     \<and> (equal_to_text a = [] \<or> spells EQUAL_TO (equal_to_text a))
     \<and> spells (bit_symbol b) (bit_text a)"


section \<open>States used in the examples\<close>

text \<open>
  Memory after a program has read the bits 0 and 1 and stored them from the jump register
  into the variables 0 and 1.
\<close>

definition bits_state :: state where
  "bits_state =
     (initial_state [])\<lparr>memory :=
        [0 \<mapsto> \<lparr>v_value = 0, v_type = BIT\<rparr>, 1 \<mapsto> \<lparr>v_value = 1, v_type = BIT\<rparr>]\<rparr>"

definition one_in_cell_zero :: state where
  "one_in_cell_zero =
     (initial_state [])\<lparr>memory := [0 \<mapsto> \<lparr>v_value = 1, v_type = BIT\<rparr>]\<rparr>"

definition zero_bit_in_cell_three :: state where
  "zero_bit_in_cell_three =
     (initial_state [])\<lparr>memory := [3 \<mapsto> \<lparr>v_value = 0, v_type = BIT\<rparr>]\<rparr>"


text \<open>
  A program of two lines: line 0 reads a bit and branches to line 2 on 1 and to line 3,
  which does not exist, on 0; line 2 prints 1 and has no goto.
\<close>

definition branch_goto :: GotoNode where
  "branch_goto = new_GotoNode\<lparr>next_if_zero := 3, next_if_one := 2\<rparr>"

definition branch_program :: CodeNode where
  "branch_program =
     \<lparr>lines = [0 \<mapsto> \<lparr>line_number = 0, instruction = CommandNode (- 1), go = Some branch_goto\<rparr>,
               2 \<mapsto> \<lparr>line_number = 2, instruction = CommandNode 1, go = None\<rparr>],
      first_line_number = 0\<rparr>"

section \<open>Expression evaluation\<close>

lemma memory_read_bits_state:
  "memory_read 0 bits_state = Inr (\<lparr>v_value = 0, v_type = BIT\<rparr>, bits_state)"
  "memory_read 1 bits_state = Inr (\<lparr>v_value = 1, v_type = BIT\<rparr>, bits_state)"
  by (simp_all add: memory_read_def bits_state_def jump_register_address_def)

text \<open>
  C1. The claim: a NAND node with two operands of kind \<open>BIT\<close> yields
  \<open>1 - (left AND right)\<close> with kind \<open>BIT\<close>, so (0,0), (0,1), (1,0) give 1 and (1,1)
  gives 0. The code computes \<^verbatim>\<open>~(left & right)\<close> on \<^verbatim>\<open>int\<close>: on the four pairs of bits,
  read from the variables 0 and 1 of \<open>bits_state\<close>, it yields -1, -1, -1 and -2.
\<close>

theorem nand_truth_table_of_the_code:
  "node_value (Expression1Node (VariableNode 0) (Some (VariableNode 0))) bits_state
     = Inr (\<lparr>v_value = - 1, v_type = BIT\<rparr>, bits_state)
   \<and> node_value (Expression1Node (VariableNode 0) (Some (VariableNode 1))) bits_state
     = Inr (\<lparr>v_value = - 1, v_type = BIT\<rparr>, bits_state)
   \<and> node_value (Expression1Node (VariableNode 1) (Some (VariableNode 0))) bits_state
     = Inr (\<lparr>v_value = - 1, v_type = BIT\<rparr>, bits_state)
   \<and> node_value (Expression1Node (VariableNode 1) (Some (VariableNode 1))) bits_state
     = Inr (\<lparr>v_value = - 2, v_type = BIT\<rparr>, bits_state)"
  by (simp add: memory_read_bits_state jump_register_address_def)

text \<open>
  The NAND of two bits can therefore not be stored: \<^verbatim>\<open>memory_write\<close> rejects a \<open>BIT\<close>
  whose payload is not 0 or 1. This is the assignment
  \<^verbatim>\<open>THE JUMP REGISTER EQUALS THE JUMP REGISTER NAND THE JUMP REGISTER\<close>. (A NAND of
  two such results is 0 or 1 again.)
\<close>

lemma nand_result_cannot_be_stored:
  "run_instruction (AssignmentNode jump_register_address None
       (Expression1Node (VariableNode (- 1)) (Some (VariableNode (- 1))))) (initial_state [])
     = Inl (RuntimeError ''Illegal value: -1'')"
  by (simp add: memory_read_def memory_write_def jump_register_address_def initial_state_def
      to_string_def to_string_nat.simps)

text \<open>
  C2. The claim: \<^verbatim>\<open>THE ADDRESS OF\<close> fails on the jump register's address and succeeds on
  every non-negative address, returning it with kind \<open>ADDRESS_OF_A_BIT\<close>. The code
  compares the payload, not the kind, with \<^verbatim>\<open>ADDRESS_OF_A_BIT\<close> (2): the address 2, here
  the constant \<^verbatim>\<open>ONE ZERO\<close>, is rejected.
\<close>

theorem address_of_payload_two_fails:
  "node_value (Expression2Node (Expression5Node 2)) s
     = Inl (RuntimeError ''The THE ADDRESS OF operator requires a bit value.'')"
  by simp

text \<open>The rest of C2 holds: the jump register's address fails, and every other
  non-negative payload is returned with kind \<open>ADDRESS_OF_A_BIT\<close>.\<close>

lemma address_of_other_payloads:
  assumes "node_value child s = Inr (v, s1)"
  shows "v_value v = jump_register_address \<Longrightarrow>
           node_value (Expression2Node child) s = Inl (RuntimeError
             ''The THE ADDRESS OF operator can't be used with the jump register.'')"
    and "0 \<le> v_value v \<Longrightarrow> v_value v \<noteq> 2 \<Longrightarrow>
           node_value (Expression2Node child) s
             = Inr (\<lparr>v_value = v_value v, v_type = ADDRESS_OF_A_BIT\<rparr>, s1)"
  using assms by (simp_all add: jump_register_address_def)

text \<open>
  C3. The claim: \<^verbatim>\<open>THE VALUE AT\<close> applied to \<^verbatim>\<open>THE ADDRESS OF\<close> the cell at address \<open>x\<close>
  returns the content of cell \<open>x\<close>. In the code \<^verbatim>\<open>VariableNode::value\<close> returns the
  content of the cell, so \<^verbatim>\<open>THE ADDRESS OF VARIABLE x\<close> is the payload stored in cell
  \<open>x\<close>, and \<^verbatim>\<open>THE VALUE AT\<close> rejects the payload 1. With the bit 1 in cell 0 the
  expression on \<^verbatim>\<open>VARIABLE ZERO\<close> fails; with the bit 0 in cell 3 the expression on
  \<^verbatim>\<open>VARIABLE ONE ONE\<close> reads the empty cell 0 instead of cell 3; and when the address is
  written as the constant \<^verbatim>\<open>ONE\<close> the expression fails as well.
\<close>

theorem value_at_address_of_misses_cell:
  "node_value (Expression4Node (Expression1Node (Expression2Node (VariableNode 0)) None))
       one_in_cell_zero
     = Inl (RuntimeError ''The THE VALUE BEYOND operator requires an address-of-a-bit value.'')
   \<and> node_value (Expression4Node (Expression1Node (Expression2Node (VariableNode 3)) None))
       zero_bit_in_cell_three
     = Inr (\<lparr>v_value = 0, v_type = UNDEFINED\<rparr>,
            zero_bit_in_cell_three\<lparr>memory := (memory zero_bit_in_cell_three)
               (0 \<mapsto> \<lparr>v_value = 0, v_type = UNDEFINED\<rparr>)\<rparr>)
   \<and> node_value (Expression4Node (Expression1Node (Expression2Node (Expression5Node 1)) None))
       one_in_cell_zero
     = Inl (RuntimeError ''The THE VALUE BEYOND operator requires an address-of-a-bit value.'')"
  by (simp add: memory_read_def jump_register_address_def one_in_cell_zero_def
      zero_bit_in_cell_three_def initial_state_def)

text \<open>
  C6, as claimed: a NAND node with a right operand fails exactly when an operand's kind
  is not \<open>BIT\<close>. The code accepts the literal constants, whose kind is \<open>UNDEFINED\<close>:
  \<^verbatim>\<open>ZERO NAND ZERO\<close> evaluates without an error.
\<close>

theorem nand_undefined_operands_counterexample:
  "node_value (Expression5Node 0) (initial_state [])
     = Inr (\<lparr>v_value = 0, v_type = UNDEFINED\<rparr>, initial_state [])
   \<and> v_type \<lparr>v_value = 0, v_type = UNDEFINED\<rparr> \<noteq> BIT
   \<and> node_value (Expression1Node (Expression5Node 0) (Some (Expression5Node 0)))
       (initial_state [])
     = Inr (\<lparr>v_value = - 1, v_type = BIT\<rparr>, initial_state [])"
  by simp

text \<open>
  C6, amended: when both operands evaluate to values of kind \<open>BIT\<close> or \<open>UNDEFINED\<close>
  with payload 0 or 1, the NAND node succeeds and its result has kind \<open>BIT\<close>.
\<close>

theorem nand_accepts_bit_and_undefined:
  assumes "node_value left s = Inr (value_left, s1)"
    and "node_value right s1 = Inr (value_right, s2)"
    and "v_type value_left = BIT \<or> v_type value_left = UNDEFINED"
    and "v_type value_right = BIT \<or> v_type value_right = UNDEFINED"
    and "v_value value_left = 0 \<or> v_value value_left = 1"
    and "v_value value_right = 0 \<or> v_value value_right = 1"
  shows "\<exists>v. node_value (Expression1Node left (Some right)) s = Inr (v, s2) \<and> v_type v = BIT"
  using assms by auto

theorem nand_accepts_bit_and_undefined_witness:
  "node_value (Expression5Node 0) (initial_state [])
     = Inr (\<lparr>v_value = 0, v_type = UNDEFINED\<rparr>, initial_state [])
   \<and> node_value (VariableNode (- 1)) (initial_state [])
     = Inr (\<lparr>v_value = 0, v_type = BIT\<rparr>, initial_state [])
   \<and> (\<exists>v. node_value (Expression1Node (Expression5Node 0) (Some (VariableNode (- 1))))
         (initial_state []) = Inr (v, initial_state []) \<and> v_type v = BIT)"
proof -
  have l: "node_value (Expression5Node 0) (initial_state [])
     = Inr (\<lparr>v_value = 0, v_type = UNDEFINED\<rparr>, initial_state [])"
    by simp
  have r: "node_value (VariableNode (- 1)) (initial_state [])
     = Inr (\<lparr>v_value = 0, v_type = BIT\<rparr>, initial_state [])"
    by (simp add: memory_read_def jump_register_address_def initial_state_def)
  from nand_accepts_bit_and_undefined [OF l r] l r show ?thesis
    by simp
qed

section \<open>Writes\<close>

text \<open>
  C4. The claim: every write to the jump register that completes stores 0 or 1, so the
  jump register always holds a bit. The code treats the register as a bit everywhere
  else: \<^verbatim>\<open>memory_read\<close> returns it with kind \<open>BIT\<close>, \<^verbatim>\<open>memory_write\<close> calls a \<open>BIT\<close>
  other than 0 and 1 illegal, and \<^verbatim>\<open>READ\<close> stores a checked bit. But the check of
  \<^verbatim>\<open>memory_write\<close> skips a value of kind \<open>UNDEFINED\<close>:
  \<^verbatim>\<open>THE JUMP REGISTER EQUALS ONE ZERO ONE\<close> leaves 5 in the jump register, which is then
  read as the \<open>BIT\<close> 5, and \<^verbatim>\<open>VARIABLE ZERO EQUALS THE JUMP REGISTER\<close> fails on it.
\<close>

theorem jump_register_holds_five:
  "run_instruction (AssignmentNode jump_register_address None
       (Expression1Node (Expression5Node 5) None)) (initial_state [])
     = Inr ((initial_state [])\<lparr>jump_register := 5\<rparr>)
   \<and> memory_read jump_register_address ((initial_state [])\<lparr>jump_register := 5\<rparr>)
     = Inr (\<lparr>v_value = 5, v_type = BIT\<rparr>, (initial_state [])\<lparr>jump_register := 5\<rparr>)
   \<and> run_instruction (AssignmentNode 0 None (Expression1Node (VariableNode (- 1)) None))
       ((initial_state [])\<lparr>jump_register := 5\<rparr>)
     = Inl (RuntimeError ''Illegal value: 5'')"
  by (simp add: memory_write_def memory_read_def jump_register_address_def to_string_def
      to_string_nat.simps)

text \<open>
  The other writes to the jump register do keep it a bit: \<^verbatim>\<open>READ\<close> stores 0 or 1, and
  \<^verbatim>\<open>memory_write\<close> stores neither an \<open>ADDRESS_OF_A_BIT\<close> nor a \<open>BIT\<close> other than 0
  and 1.
\<close>

lemma read_stores_a_bit:
  assumes "print_value \<noteq> 0" and "print_value \<noteq> 1"
    and "run_instruction (CommandNode print_value) s = Inr s'"
  shows "jump_register s' = 0 \<or> jump_register s' = 1"
  using assms
  by (auto simp add: read_bit_def memory_write_def split: list.splits if_splits)

lemma memory_write_jump_register:
  assumes "memory_write jump_register_address v s = Inr s'"
  shows "s' = s\<lparr>jump_register := v_value v\<rparr>"
    and "v_type v \<noteq> ADDRESS_OF_A_BIT"
    and "v_type v = BIT \<Longrightarrow> v_value v = 0 \<or> v_value v = 1"
  using assms by (auto simp add: memory_write_def split: if_splits)

text \<open>
  C10, as claimed: an assignment whose target is a general expression fails in the write
  only when the target's payload is below the jump register's address. The code also
  rejects a written value of kind \<open>BIT\<close> that is not 0 or 1:
  \<^verbatim>\<open>ONE ZERO ONE EQUALS ZERO NAND ZERO\<close> has the target payload 5 and fails.
\<close>

theorem computed_target_write_counterexample:
  "node_value (Expression1Node (Expression5Node 5) None) (initial_state [])
     = Inr (\<lparr>v_value = 5, v_type = UNDEFINED\<rparr>, initial_state [])
   \<and> \<not> 5 < jump_register_address
   \<and> run_instruction (AssignmentNode INT_MIN (Some (Expression1Node (Expression5Node 5) None))
         (Expression1Node (Expression5Node 0) (Some (Expression5Node 0)))) (initial_state [])
     = Inl (RuntimeError ''Illegal value: -1'')"
  by (simp add: memory_write_def jump_register_address_def INT_MIN_def to_string_def
      to_string_nat.simps)

text \<open>
  C10, amended: when the target and the right-hand side evaluate, the assignment is the
  write of the right-hand value at the target's payload, whatever the target's kind. The
  write completes exactly when the payload is not below the jump register's address, the
  written value is not a \<open>BIT\<close> other than 0 or 1, and it is not an
  \<open>ADDRESS_OF_A_BIT\<close> written to the jump register; above the jump register's address it
  stores the value in that memory cell.
\<close>

theorem computed_target_write:
  assumes "node_value address_expression s = Inr (a, s1)"
    and "node_value expression s1 = Inr (v, s2)"
  shows "run_instruction (AssignmentNode INT_MIN (Some address_expression) expression) s
           = memory_write (v_value a) v s2
         \<and> ((\<exists>s'. memory_write (v_value a) v s2 = Inr s') \<longleftrightarrow>
              v_value a \<ge> jump_register_address
              \<and> \<not> (v_type v = BIT \<and> v_value v \<noteq> 0 \<and> v_value v \<noteq> 1)
              \<and> \<not> (v_value a = jump_register_address \<and> v_type v = ADDRESS_OF_A_BIT))
         \<and> (v_value a > jump_register_address
              \<and> \<not> (v_type v = BIT \<and> v_value v \<noteq> 0 \<and> v_value v \<noteq> 1) \<longrightarrow>
              memory_write (v_value a) v s2 = Inr (s2\<lparr>memory := (memory s2)(v_value a \<mapsto> v)\<rparr>))"
  using assms
  by (auto simp add: memory_write_def jump_register_address_def INT_MIN_def)

theorem computed_target_write_witness:
  "node_value (Expression1Node (Expression5Node 5) None) (initial_state [])
     = Inr (\<lparr>v_value = 5, v_type = UNDEFINED\<rparr>, initial_state [])
   \<and> node_value (Expression1Node (Expression5Node 1) None) (initial_state [])
     = Inr (\<lparr>v_value = 1, v_type = UNDEFINED\<rparr>, initial_state [])
   \<and> run_instruction (AssignmentNode INT_MIN (Some (Expression1Node (Expression5Node 5) None))
         (Expression1Node (Expression5Node 1) None)) (initial_state [])
     = Inr ((initial_state [])\<lparr>memory := [5 \<mapsto> \<lparr>v_value = 1, v_type = UNDEFINED\<rparr>]\<rparr>)"
proof -
  have a: "node_value (Expression1Node (Expression5Node 5) None) (initial_state [])
     = Inr (\<lparr>v_value = 5, v_type = UNDEFINED\<rparr>, initial_state [])"
    by simp
  have v: "node_value (Expression1Node (Expression5Node 1) None) (initial_state [])
     = Inr (\<lparr>v_value = 1, v_type = UNDEFINED\<rparr>, initial_state [])"
    by simp
  from computed_target_write [OF a v] a v show ?thesis
    by (simp add: jump_register_address_def initial_state_def)
qed

section \<open>The scanner on spelled symbols\<close>

lemma check_whitespace_eq:
  "p < length inp \<Longrightarrow>
   check_whitespace inp p =
     (if dropWhile is_whitespace (drop p inp) = [] then Inr None
      else Inr (Some (p + length (takeWhile is_whitespace (drop p inp)))))"
proof (induction inp p rule: check_whitespace.induct)
  case (1 inp p)
  then have d: "drop p inp = inp ! p # drop (Suc p) inp"
    by (simp add: Cons_nth_drop_Suc)
  show ?case
  proof (cases "is_whitespace (inp ! p)")
    case False
    with 1 d show ?thesis
      by (simp add: check_whitespace.simps [of inp p])
  next
    case ws: True
    show ?thesis
    proof (cases "p + 1 \<ge> length inp")
      case True
      with 1 ws d show ?thesis
        by (simp add: check_whitespace.simps [of inp p])
    next
      case False
      with 1 ws have "check_whitespace inp (p + 1) =
        (if dropWhile is_whitespace (drop (p + 1) inp) = [] then Inr None
         else Inr (Some (p + 1 + length (takeWhile is_whitespace (drop (p + 1) inp)))))"
        by simp
      with 1 ws d False show ?thesis
        by (simp add: check_whitespace.simps [of inp p])
    qed
  qed
qed

lemma nth_after_whitespace:
  assumes "dropWhile is_whitespace (drop p inp) = c # rest"
  shows "p + length (takeWhile is_whitespace (drop p inp)) < length inp"
    and "inp ! (p + length (takeWhile is_whitespace (drop p inp))) = c"
    and "drop (Suc (p + length (takeWhile is_whitespace (drop p inp)))) inp = rest"
proof -
  have "drop (length (takeWhile is_whitespace (drop p inp)) + p) inp = c # rest"
    using assms by (simp add: dropWhile_eq_drop)
  then have "drop (p + length (takeWhile is_whitespace (drop p inp))) inp = c # rest"
    by (simp add: add.commute)
  from drop_eq_ConsD [OF this]
  show "p + length (takeWhile is_whitespace (drop p inp)) < length inp"
    and "inp ! (p + length (takeWhile is_whitespace (drop p inp))) = c"
    and "drop (Suc (p + length (takeWhile is_whitespace (drop p inp)))) inp = rest"
    by simp_all
qed

lemma spelled_split:
  assumes "filter (\<lambda>c. \<not> is_whitespace c) t = c # cs"
    and "t = [] \<or> \<not> is_whitespace (last t)"
  obtains us vs where "t = us @ c # vs" and "\<forall>u\<in>set us. is_whitespace u"
    and "\<not> is_whitespace c" and "filter (\<lambda>c. \<not> is_whitespace c) vs = cs"
    and "vs = [] \<or> \<not> is_whitespace (last vs)"
proof -
  from assms(1) obtain us vs where t: "t = us @ c # vs" and us: "\<forall>u\<in>set us. \<not> \<not> is_whitespace u"
    and c: "\<not> is_whitespace c" and vs: "cs = filter (\<lambda>c. \<not> is_whitespace c) vs"
    unfolding filter_eq_Cons_iff by blast
  from assms(2) t have "vs = [] \<or> \<not> is_whitespace (last vs)"
    by auto
  with t us c vs that show thesis
    by auto
qed

lemma whitespace_prefix:
  assumes "\<forall>u\<in>set us. is_whitespace u" and "\<not> is_whitespace c"
  shows "takeWhile is_whitespace (us @ c # vs) = us"
    and "dropWhile is_whitespace (us @ c # vs) = c # vs"
  using assms by (simp_all add: takeWhile_append2 dropWhile_append2)

lemma check_chars_spelled:
  "filter (\<lambda>c. \<not> is_whitespace c) t = cs \<Longrightarrow> t = [] \<or> \<not> is_whitespace (last t) \<Longrightarrow>
   drop p inp = t @ r \<Longrightarrow> check_chars cs inp p = Inr True"
proof (induction cs arbitrary: t p)
  case Nil
  show ?case by simp
next
  case (Cons c cs)
  from Cons.prems(1,2) obtain us vs where t: "t = us @ c # vs"
    and us: "\<forall>u\<in>set us. is_whitespace u" and c: "\<not> is_whitespace c"
    and vs: "filter (\<lambda>c. \<not> is_whitespace c) vs = cs" "vs = [] \<or> \<not> is_whitespace (last vs)"
    by (rule spelled_split)
  from Cons.prems(3) t have d: "drop p inp = us @ c # (vs @ r)"
    by simp
  then have p: "p < length inp"
    by (cases "p < length inp") auto
  from d us c have tw: "takeWhile is_whitespace (drop p inp) = us"
    and dw: "dropWhile is_whitespace (drop p inp) = c # (vs @ r)"
    by (simp_all add: whitespace_prefix)
  from nth_after_whitespace [OF dw] tw
  have n: "inp ! (p + length us) = c" "drop (Suc (p + length us)) inp = vs @ r"
    by simp_all
  from Cons.IH [OF vs n(2)] have "check_chars cs inp (Suc (p + length us)) = Inr True" .
  with p tw dw n show ?case
    by (simp add: check_whitespace_eq)
qed

lemma check_spelled:
  assumes "spells symbol t" and "drop p inp = t @ r"
  shows "check symbol inp p = Inr True"
proof -
  from assms have "p < length inp"
    by (cases "p < length inp") (auto simp add: spells_def)
  with check_chars_spelled [of t symbol p inp r] assms show ?thesis
    by (simp add: check_def spells_def)
qed

lemma check_first_mismatch:
  assumes "first_char (drop p inp) \<noteq> Some c"
  shows "check (c # cs) inp p = Inr False"
proof (cases "p < length inp")
  case False
  then show ?thesis by (simp add: check_def)
next
  case True
  show ?thesis
  proof (cases "dropWhile is_whitespace (drop p inp)")
    case Nil
    with True show ?thesis
      by (simp add: check_def check_whitespace_eq)
  next
    case (Cons d rest)
    with assms have "d \<noteq> c"
      by (simp add: first_char_def)
    with True Cons nth_after_whitespace(2) [OF Cons] show ?thesis
      by (simp add: check_def check_whitespace_eq)
  qed
qed

lemma consume_chars_spelled:
  "filter (\<lambda>c. \<not> is_whitespace c) t = cs \<Longrightarrow> t = [] \<or> \<not> is_whitespace (last t) \<Longrightarrow>
   drop p inp = t @ r \<Longrightarrow> consume_chars cs symbol inp p = Inr (p + length t)"
proof (induction cs arbitrary: t p)
  case Nil
  then have "t = []"
    by (cases t rule: rev_cases) (auto simp add: filter_empty_conv)
  then show ?case by simp
next
  case (Cons c cs)
  from Cons.prems(1,2) obtain us vs where t: "t = us @ c # vs"
    and us: "\<forall>u\<in>set us. is_whitespace u" and c: "\<not> is_whitespace c"
    and vs: "filter (\<lambda>c. \<not> is_whitespace c) vs = cs" "vs = [] \<or> \<not> is_whitespace (last vs)"
    by (rule spelled_split)
  from Cons.prems(3) t have d: "drop p inp = us @ c # (vs @ r)"
    by simp
  from d us c have tw: "takeWhile is_whitespace (drop p inp) = us"
    and dw: "dropWhile is_whitespace (drop p inp) = c # (vs @ r)"
    by (simp_all add: whitespace_prefix)
  from nth_after_whitespace [OF dw] tw
  have n: "p + length us < length inp" "inp ! (p + length us) = c"
    "drop (Suc (p + length us)) inp = vs @ r"
    by simp_all
  from Cons.IH [OF vs n(3)]
  have "consume_chars cs symbol inp (Suc (p + length us)) = Inr (Suc (p + length us) + length vs)" .
  with tw n t show ?case
    by (simp add: skip_whitespace_eq consume_char_def)
qed

lemma consume_spelled:
  assumes "spells symbol t" and "drop p inp = t @ r"
  shows "consume symbol inp p = Inr (p + length t)"
  using consume_chars_spelled [of t symbol p inp r symbol] assms
  by (simp add: consume_def spells_def)

section \<open>Bit-strings\<close>

lemma drop_append_eq:
  "drop p inp = t @ r \<Longrightarrow> drop (p + length t) inp = r"
  by (metis add.commute append_eq_conv_conj drop_drop)

lemma spells_first_char:
  assumes "spells (c # cs) t"
  shows "first_char (t @ r) = Some c"
proof -
  from assms have "filter (\<lambda>c. \<not> is_whitespace c) t = c # cs"
    and "t = [] \<or> \<not> is_whitespace (last t)"
    by (simp_all add: spells_def)
  then obtain us vs where "t = us @ c # vs" and "\<forall>u\<in>set us. is_whitespace u"
    and "\<not> is_whitespace c"
    by (rule spelled_split)
  then show ?thesis
    by (simp add: first_char_def whitespace_prefix)
qed

lemma first_char_skip:
  "first_char (drop (skip_whitespace inp p) inp) = first_char (drop p inp)"
proof -
  have "drop (skip_whitespace inp p) inp = dropWhile is_whitespace (drop p inp)"
    by (simp add: skip_whitespace_eq dropWhile_eq_drop add.commute)
  then show ?thesis
    by (simp add: first_char_def)
qed

lemma spells_after_skip:
  assumes "spells symbol t" and "drop p inp = t @ r"
  obtains t' where "spells symbol t'" and "drop (skip_whitespace inp p) inp = t' @ r"
    and "skip_whitespace inp p + length t' = p + length t"
proof -
  from assms(1) have ne: "t \<noteq> []" and l: "\<not> is_whitespace (last t)"
    by (simp_all add: spells_def)
  then have ex: "\<exists>x\<in>set t. \<not> is_whitespace x"
    using last_in_set by blast
  then obtain x where x: "x \<in> set t" "\<not> is_whitespace x"
    by blast
  then have tw: "takeWhile is_whitespace (t @ r) = takeWhile is_whitespace t"
    and dw: "dropWhile is_whitespace (t @ r) = dropWhile is_whitespace t @ r"
    by (rule takeWhile_append1, rule dropWhile_append1)
  let ?t = "dropWhile is_whitespace t"
  from ex have ne': "?t \<noteq> []"
    by (simp add: dropWhile_eq_Nil_conv)
  then have "last ?t = last t"
    by (metis last_appendR takeWhile_dropWhile_id)
  moreover have "filter (\<lambda>c. \<not> is_whitespace c) ?t = filter (\<lambda>c. \<not> is_whitespace c) t"
  proof -
    have "filter (\<lambda>c. \<not> is_whitespace c) (takeWhile is_whitespace t @ ?t)
        = filter (\<lambda>c. \<not> is_whitespace c) ?t"
      unfolding filter_append
      by (simp add: filter_empty_conv) (meson set_takeWhileD)
    then show ?thesis by simp
  qed
  ultimately have 1: "spells symbol ?t"
    using assms(1) ne' by (simp add: spells_def)
  have "drop (skip_whitespace inp p) inp = dropWhile is_whitespace (drop p inp)"
    by (simp add: skip_whitespace_eq dropWhile_eq_drop add.commute)
  with assms(2) dw have 2: "drop (skip_whitespace inp p) inp = ?t @ r"
    by simp
  have "length (takeWhile is_whitespace t) + length ?t = length t"
    by (metis length_append takeWhile_dropWhile_id)
  then have 3: "skip_whitespace inp p + length ?t = p + length t"
    using assms(2) tw by (simp add: skip_whitespace_eq)
  from 1 2 3 that show thesis by blast
qed

lemma parse_bit_spelled:
  assumes "spells (bit_symbol b) t" and "drop p inp = t @ r"
  shows "parse_bit inp p = Inr (of_bool b, p + length t)"
proof -
  let ?q = "skip_whitespace inp p"
  from assms obtain t' where t': "spells (bit_symbol b) t'" "drop ?q inp = t' @ r"
    "?q + length t' = p + length t"
    by (rule spells_after_skip)
  show ?thesis
  proof (cases b)
    case False
    with t' have "check ZERO inp ?q = Inr True" "consume ZERO inp ?q = Inr (p + length t)"
      using check_spelled [of ZERO t' ?q inp r] consume_spelled [of ZERO t' ?q inp r]
      by (simp_all add: bit_symbol_def)
    with False show ?thesis
      by (simp add: parse_bit_def then_do_def)
  next
    case True
    with t' have one: "spells (CHR ''O'' # ''NE'') t'"
      by (simp add: bit_symbol_def ONE_def)
    from spells_first_char [OF one, of r] t'(2)
    have "first_char (drop ?q inp) \<noteq> Some CHR ''Z''"
      by simp
    then have "check ZERO inp ?q = Inr False"
      unfolding ZERO_def by (rule check_first_mismatch)
    moreover from True t'
    have "check ONE inp ?q = Inr True" "consume ONE inp ?q = Inr (p + length t)"
      using check_spelled [of ONE t' ?q inp r] consume_spelled [of ONE t' ?q inp r]
      by (simp_all add: bit_symbol_def)
    ultimately show ?thesis
      using True by (simp add: parse_bit_def then_do_def)
  qed
qed

lemma check_bit_spelled:
  assumes "spells (bit_symbol b) t" and "drop p inp = t @ r"
  shows "check ZERO inp p = Inr (\<not> b)" and "check ONE inp p = Inr b"
proof -
  show "check ZERO inp p = Inr (\<not> b)"
  proof (cases b)
    case False
    with assms check_spelled [of ZERO t p inp r] show ?thesis
      by (simp add: bit_symbol_def)
  next
    case True
    with assms have "spells (CHR ''O'' # ''NE'') t"
      by (simp add: bit_symbol_def ONE_def)
    from spells_first_char [OF this, of r] assms(2)
    have "first_char (drop p inp) \<noteq> Some CHR ''Z''"
      by simp
    then have "check ZERO inp p = Inr False"
      unfolding ZERO_def by (rule check_first_mismatch)
    with True show ?thesis by simp
  qed
  show "check ONE inp p = Inr b"
  proof (cases b)
    case True
    with assms check_spelled [of ONE t p inp r] show ?thesis
      by (simp add: bit_symbol_def)
  next
    case False
    with assms have "spells (CHR ''Z'' # ''ERO'') t"
      by (simp add: bit_symbol_def ZERO_def)
    from spells_first_char [OF this, of r] assms(2)
    have "first_char (drop p inp) \<noteq> Some CHR ''O''"
      by simp
    then have "check ONE inp p = Inr False"
      unfolding ONE_def by (rule check_first_mismatch)
    with False show ?thesis by simp
  qed
qed

lemma parse_bits_loop_spelled:
  assumes "list_all2 (\<lambda>t b. spells (bit_symbol b) t) texts bs"
    and "first_char r \<noteq> Some CHR ''Z''" and "first_char r \<noteq> Some CHR ''O''"
    and "drop p inp = concat texts @ r"
  shows "parse_bits_loop acc inp p
    = Inr (foldl (\<lambda>a b. int32 (push_bit 1 a OR of_bool b)) acc bs, p + length (concat texts))"
  using assms(1,4)
proof (induction texts bs arbitrary: acc p rule: list_all2_induct)
  case Nil
  with assms(2,3) have "check ZERO inp p = Inr False" "check ONE inp p = Inr False"
    unfolding ZERO_def ONE_def by (simp_all add: check_first_mismatch)
  then show ?case
    by (simp add: parse_bits_loop.simps [of acc inp p])
next
  case (Cons t texts b bs)
  from Cons.prems have d: "drop p inp = t @ (concat texts @ r)"
    by simp
  from Cons.hyps(1) d have c: "check ZERO inp p = Inr (\<not> b)" "check ONE inp p = Inr b"
    and pb: "parse_bit inp p = Inr (of_bool b, p + length t)"
    by (rule check_bit_spelled, rule check_bit_spelled, rule parse_bit_spelled)
  from d have "drop (p + length t) inp = concat texts @ r"
    by (rule drop_append_eq)
  from Cons.IH [OF this]
  have "parse_bits_loop (int32 (push_bit 1 acc OR of_bool b)) inp (p + length t)
    = Inr (foldl (\<lambda>a b. int32 (push_bit 1 a OR of_bool b)) (int32 (push_bit 1 acc OR of_bool b)) bs,
           p + length t + length (concat texts))" .
  with c pb show ?case
    by (cases b) (simp_all add: parse_bits_loop.simps [of acc inp p] add.assoc)
qed

lemma int32_step:
  "int32 (push_bit 1 (int32 x) OR of_bool b) = int32 (2 * x + of_bool b)"
proof -
  have "push_bit 1 (int32 x) OR of_bool b = 2 * int32 x + of_bool b"
    by (cases b) (simp_all add: or_one_eq)
  moreover have "signed_take_bit 31 (2 * signed_take_bit 31 x + of_bool b)
      = signed_take_bit 31 (2 * x + (of_bool b :: int))"
    by (metis (no_types) signed_take_bit_add signed_take_bit_mult signed_take_bit_signed_take_bit min.idem)
  ultimately show ?thesis
    by (simp add: int32_def)
qed

lemma foldl_int32:
  "foldl (\<lambda>a b. int32 (push_bit 1 a OR of_bool b)) (int32 x) bs
     = int32 (foldl (\<lambda>a b. 2 * a + of_bool b) x bs)"
proof (induction bs arbitrary: x)
  case Nil
  show ?case by simp
next
  case (Cons b bs)
  have "foldl (\<lambda>a b. int32 (push_bit 1 a OR of_bool b)) (int32 x) (b # bs)
      = foldl (\<lambda>a b. int32 (push_bit 1 a OR of_bool b))
          (int32 (push_bit 1 (int32 x) OR of_bool b)) bs"
    by (simp only: foldl_Cons)
  also have "\<dots> = foldl (\<lambda>a b. int32 (push_bit 1 a OR of_bool b))
          (int32 (2 * x + of_bool b)) bs"
    by (simp only: int32_step)
  also have "\<dots> = int32 (foldl (\<lambda>a b. 2 * a + of_bool b) (2 * x + of_bool b) bs)"
    by (rule Cons.IH)
  also have "\<dots> = int32 (foldl (\<lambda>a b. 2 * a + of_bool b) x (b # bs))"
    by (simp only: foldl_Cons)
  finally show ?case .
qed

lemma int_foldl_binary:
  "int (foldl (\<lambda>a b. 2 * a + of_bool b) n bs) = foldl (\<lambda>a b. 2 * a + of_bool b) (int n) bs"
  by (induction bs arbitrary: n) simp_all

lemma int32_small: "- (2 ^ 31) \<le> i \<Longrightarrow> i < 2 ^ 31 \<Longrightarrow> int32 i = i"
  by (simp add: int32_def signed_take_bit_int_eq_self)

lemma parse_bits_spelled:
  assumes "spelled_bits texts bs" and "bs \<noteq> []"
    and "first_char r \<noteq> Some CHR ''Z''" and "first_char r \<noteq> Some CHR ''O''"
    and "drop p inp = concat texts @ r"
  shows "parse_bits inp p = Inr (int32 (int (binary_value bs)), p + length (concat texts))"
proof -
  from assms(1,2) obtain t texts' b bs' where texts: "texts = t # texts'" and bs: "bs = b # bs'"
    and t: "spells (bit_symbol b) t"
    and rest: "list_all2 (\<lambda>t b. spells (bit_symbol b) t) texts' bs'"
    by (cases texts; cases bs) (auto simp add: spelled_bits_def)
  let ?q = "skip_whitespace inp p"
  from assms(5) texts have d: "drop p inp = t @ (concat texts' @ r)"
    by simp
  from t d obtain t' where t': "spells (bit_symbol b) t'" "drop ?q inp = t' @ (concat texts' @ r)"
    "?q + length t' = p + length t"
    by (rule spells_after_skip)
  from parse_bit_spelled [OF t'(1,2)] t'(3)
  have first: "parse_bit inp ?q = Inr (of_bool b, p + length t)"
    by simp
  from d have "drop (p + length t) inp = concat texts' @ r"
    by (rule drop_append_eq)
  from parse_bits_loop_spelled [OF rest assms(3,4) this]
  have "parse_bits_loop (of_bool b) inp (p + length t)
    = Inr (foldl (\<lambda>a b. int32 (push_bit 1 a OR of_bool b)) (of_bool b) bs',
           p + length t + length (concat texts'))" .
  moreover have "foldl (\<lambda>a b. int32 (push_bit 1 a OR of_bool b)) (of_bool b) bs'
      = int32 (int (binary_value bs))"
  proof -
    have "(of_bool b :: int) = int32 (of_bool b)"
      by (cases b) (simp_all add: int32_def)
    then have "foldl (\<lambda>a b. int32 (push_bit 1 a OR of_bool b)) (of_bool b) bs'
      = int32 (foldl (\<lambda>a b. 2 * a + of_bool b) (of_bool b) bs')"
      using foldl_int32 [of "of_bool b" bs'] by simp
    also have "foldl (\<lambda>a b. 2 * a + of_bool b) (of_bool b :: int) bs' = int (binary_value bs)"
      by (simp add: binary_value_def bs int_foldl_binary)
    finally show ?thesis .
  qed
  ultimately show ?thesis
    using first texts by (simp add: parse_bits_def then_do_def add.assoc)
qed

lemma spelled_bits_replicate:
  "spells (bit_symbol b) t \<Longrightarrow> spelled_bits (replicate n t) (replicate n b)"
  by (induction n) (simp_all add: spelled_bits_def)

lemma binary_value_zeros: "foldl (\<lambda>a b. 2 * a + of_bool b) (x::nat) (replicate n False) = x * 2 ^ n"
  by (induction n arbitrary: x) simp_all

text \<open>
  C8, as claimed: for every non-empty sequence of \<^verbatim>\<open>ZERO\<close>/\<^verbatim>\<open>ONE\<close> tokens
  \<^verbatim>\<open>parse_bits\<close> returns its binary value. The result is a 32-bit \<^verbatim>\<open>int\<close>: \<^verbatim>\<open>ONE\<close>
  followed by 31 times \<^verbatim>\<open>ZERO\<close> has the value 2147483648 and parses to -2147483648.
\<close>

theorem parse_bits_overflow_counterexample:
  "parse_bits (concat (''ONE'' # replicate 31 '' ZERO'')) 0 = Inr (- 2147483648, 158)
   \<and> binary_value (True # replicate 31 False) = 2147483648"
proof -
  have s: "spelled_bits (''ONE'' # replicate 31 '' ZERO'') (True # replicate 31 False)"
    using spelled_bits_replicate [of False "'' ZERO''" 31]
    by (simp add: spelled_bits_def spells_def bit_symbol_def ONE_def ZERO_def is_whitespace_def)
  have v: "binary_value (True # replicate 31 False) = 2147483648"
    by (simp add: binary_value_def binary_value_zeros)
  have l: "length (concat (''ONE'' # replicate 31 '' ZERO'')) = 158"
    by (simp add: length_concat sum_list_replicate)
  have "int32 2147483648 = - 2147483648"
    by (simp add: int32_def signed_take_bit_eq_take_bit_minus take_bit_eq_mod bit_iff_odd)
  with parse_bits_spelled [OF s, of "[]" 0 "concat (''ONE'' # replicate 31 '' ZERO'')"] v l
  show ?thesis
    by (simp add: first_char_def)
qed

text \<open>
  C8, amended: for every non-empty sequence of \<^verbatim>\<open>ZERO\<close>/\<^verbatim>\<open>ONE\<close> tokens whose binary
  value is below \<open>2 ^ 31\<close>, spelled with any whitespace and followed by the end of the
  input or by a text that does not go on with a further bit, \<^verbatim>\<open>parse_bits\<close> returns that
  value, read most significant bit first, and stops behind the last token.
\<close>

theorem parse_bits_binary_value:
  assumes "spelled_bits texts bs" and "bs \<noteq> []"
    and "first_char rest \<noteq> Some CHR ''Z''" and "first_char rest \<noteq> Some CHR ''O''"
    and "binary_value bs < 2 ^ 31"
  shows "parse_bits (concat texts @ rest) 0 = Inr (int (binary_value bs), length (concat texts))"
proof -
  from assms(5) have "int32 (int (binary_value bs)) = int (binary_value bs)"
    by (intro int32_small) simp_all
  with parse_bits_spelled [OF assms(1-4), of 0 "concat texts @ rest"] show ?thesis
    by simp
qed

theorem parse_bits_binary_value_witness:
  "spelled_bits [''ONE'', '' ZERO'', '' ZERO'', '' ONE'', '' ZERO''] [True, False, False, True, False]
   \<and> binary_value [True, False, False, True, False] = 18
   \<and> parse_bits ''ONE ZERO ZERO ONE ZERO'' 0 = Inr (18, 22)"
  using parse_bits_binary_value [of "[''ONE'', '' ZERO'', '' ZERO'', '' ONE'', '' ZERO'']"
      "[True, False, False, True, False]" "[]"]
  by (simp add: spelled_bits_def spells_def bit_symbol_def ONE_def ZERO_def is_whitespace_def
      first_char_def binary_value_def)

section \<open>Gotos\<close>

lemma parse_goto_type:
  "parse_goto inp p = Inr (g, p') \<Longrightarrow> v_type (g_next g) = BIT"
  by (auto simp add: parse_goto_def then_do_def Let_def new_GotoNode_def
      split: sum.splits if_splits prod.splits)

lemma then_do_simps:
  "then_do (Inr x) k = k x" "then_do (Inl e) k = Inl e"
  by (simp_all add: then_do_def)

lemma spelled_bits_first_char:
  assumes "spelled_bits texts bs" and "bs \<noteq> []"
  shows "first_char (concat texts @ r) = Some CHR ''Z'' \<or> first_char (concat texts @ r) = Some CHR ''O''"
proof -
  from assms obtain t texts' b where texts: "texts = t # texts'" and t: "spells (bit_symbol b) t"
    by (cases texts; cases bs) (auto simp add: spelled_bits_def)
  show ?thesis
  proof (cases b)
    case True
    with t have "spells (CHR ''O'' # ''NE'') t"
      by (simp add: bit_symbol_def ONE_def)
    from spells_first_char [OF this, of "concat texts' @ r"] texts show ?thesis
      by simp
  next
    case False
    with t have "spells (CHR ''Z'' # ''ERO'') t"
      by (simp add: bit_symbol_def ZERO_def)
    from spells_first_char [OF this, of "concat texts' @ r"] texts show ?thesis
      by simp
  qed
qed

lemma optional_spelled:
  assumes "t = [] \<or> spells (c # cs) t" and "drop p inp = t @ r"
    and "t = [] \<Longrightarrow> first_char r \<noteq> Some c"
  shows "check (c # cs) inp p = Inr (t \<noteq> [])"
    and "t \<noteq> [] \<Longrightarrow> consume (c # cs) inp p = Inr (p + length t)"
proof -
  show "check (c # cs) inp p = Inr (t \<noteq> [])"
  proof (cases "t = []")
    case True
    with assms(2,3) show ?thesis
      by (simp add: check_first_mismatch)
  next
    case False
    with assms(1) have "spells (c # cs) t"
      by simp
    from check_spelled [OF this assms(2)] False show ?thesis
      by simp
  qed
  show "consume (c # cs) inp p = Inr (p + length t)" if "t \<noteq> []"
  proof -
    from that assms(1) have "spells (c # cs) t"
      by simp
    from consume_spelled [OF this assms(2)] show ?thesis .
  qed
qed




lemma bit_symbol_first_char:
  assumes "spells (bit_symbol b) t"
  shows "first_char (t @ r) = Some CHR ''Z'' \<or> first_char (t @ r) = Some CHR ''O''"
  using spelled_bits_first_char [of "[t]" "[b]" r] assms
  by (simp add: spelled_bits_def)

lemma arm_steps:
  assumes a: "spelled_arm a bs b" and inp: "drop p inp = arm_string a @ r"
  defines "p1 \<equiv> p + length (goto_text a)"
  defines "p3 \<equiv> p1 + length (concat (address_texts a))"
  defines "p4 \<equiv> p3 + length (if_text a)"
  defines "p5 \<equiv> p4 + length (equal_to_text a)"
  shows "consume GOTO inp p = Inr p1"
    and "check GOTO inp p = Inr True"
    and "check VARIABLE inp p1 = Inr False"
    and "parse_bits inp p1 = Inr (int32 (int (binary_value bs)), p3)"
    and "check IF_THE_JUMP_REGISTER_IS inp p3 = Inr True"
    and "consume IF_THE_JUMP_REGISTER_IS inp p3 = Inr p4"
    and "\<And>k. then_do (check EQUAL_TO inp p4)
           (\<lambda>equal_to. then_do (if equal_to then consume EQUAL_TO inp p4 else Inr p4) k) = k p5"
    and "parse_bit inp p5 = Inr (of_bool b, p + length (arm_string a))"
proof -
  from a have g: "spells GOTO (goto_text a)"
    and bits: "spelled_bits (address_texts a) bs" "bs \<noteq> []"
    and i: "spells IF_THE_JUMP_REGISTER_IS (if_text a)"
    and e: "equal_to_text a = [] \<or> spells EQUAL_TO (equal_to_text a)"
    and b: "spells (bit_symbol b) (bit_text a)"
    by (simp_all add: spelled_arm_def)
  from inp have d0: "drop p inp
      = goto_text a @ (concat (address_texts a) @ if_text a @ equal_to_text a @ bit_text a @ r)"
    by (simp add: arm_string_def)
  then have d1: "drop p1 inp
      = concat (address_texts a) @ (if_text a @ equal_to_text a @ bit_text a @ r)"
    unfolding p1_def by (rule drop_append_eq)
  then have d3: "drop p3 inp = if_text a @ (equal_to_text a @ bit_text a @ r)"
    unfolding p3_def by (rule drop_append_eq)
  then have d4: "drop p4 inp = equal_to_text a @ (bit_text a @ r)"
    unfolding p4_def by (rule drop_append_eq)
  then have d5: "drop p5 inp = bit_text a @ r"
    unfolding p5_def by (rule drop_append_eq)
  from g d0 show "consume GOTO inp p = Inr p1" "check GOTO inp p = Inr True"
    unfolding p1_def by (rule consume_spelled, rule check_spelled)
  from spelled_bits_first_char [OF bits, of "if_text a @ equal_to_text a @ bit_text a @ r"] d1
  have "first_char (drop p1 inp) \<noteq> Some CHR ''V''"
    by auto
  then show "check VARIABLE inp p1 = Inr False"
    unfolding VARIABLE_def by (rule check_first_mismatch)
  from i have "spells (CHR ''I'' # ''FTHEJUMPREGISTERIS'') (if_text a)"
    by (simp add: IF_THE_JUMP_REGISTER_IS_def)
  from spells_first_char [OF this]
  have "first_char (if_text a @ equal_to_text a @ bit_text a @ r) = Some CHR ''I''" .
  then have "first_char (if_text a @ equal_to_text a @ bit_text a @ r) \<noteq> Some CHR ''Z''"
    "first_char (if_text a @ equal_to_text a @ bit_text a @ r) \<noteq> Some CHR ''O''"
    by simp_all
  from parse_bits_spelled [OF bits this d1]
  show "parse_bits inp p1 = Inr (int32 (int (binary_value bs)), p3)"
    unfolding p3_def .
  from i d3 show "check IF_THE_JUMP_REGISTER_IS inp p3 = Inr True"
    "consume IF_THE_JUMP_REGISTER_IS inp p3 = Inr p4"
    unfolding p4_def by (rule check_spelled, rule consume_spelled)
  from bit_symbol_first_char [OF b, of r]
  have "first_char (bit_text a @ r) \<noteq> Some CHR ''E''"
    by auto
  with e d4 have "check EQUAL_TO inp p4 = Inr (equal_to_text a \<noteq> [])"
    "equal_to_text a \<noteq> [] \<Longrightarrow> consume EQUAL_TO inp p4 = Inr p5"
    unfolding EQUAL_TO_def p5_def by (simp_all add: optional_spelled)
  then show "then_do (check EQUAL_TO inp p4)
      (\<lambda>equal_to. then_do (if equal_to then consume EQUAL_TO inp p4 else Inr p4) k) = k p5" for k
    by (cases "equal_to_text a = []") (simp_all add: then_do_simps p5_def)
  from parse_bit_spelled [OF b d5]
  show "parse_bit inp p5 = Inr (of_bool b, p + length (arm_string a))"
    by (simp add: p5_def p4_def p3_def p1_def arm_string_def add.assoc)
qed

lemma parse_goto_two_arms:
  assumes "spelled_arm a1 bs1 b1" and "spelled_arm a2 bs2 b2"
    and "drop p inp = arm_string a1 @ arm_string a2 @ rest"
  shows "parse_goto inp p =
    (if b1 = b2
     then Inl (ParserError
       ''Illegal symbol found. Conditional goto with different bit constant was expected.''
       (p + length (arm_string a1) + length (arm_string a2)))
     else Inr (new_GotoNode
         \<lparr>next_if_zero := int32 (int (binary_value (if b1 then bs2 else bs1))),
          next_if_one := int32 (int (binary_value (if b1 then bs1 else bs2)))\<rparr>,
       p + length (arm_string a1) + length (arm_string a2)))"
proof -
  from assms(3) have d1: "drop p inp = arm_string a1 @ (arm_string a2 @ rest)"
    by simp
  then have d2: "drop (p + length (arm_string a1)) inp = arm_string a2 @ rest"
    by (rule drop_append_eq)
  note first = arm_steps [OF assms(1) d1]
  note second = arm_steps [OF assms(2) d2]
  show ?thesis
    by (cases b1; cases b2)
      (simp_all add: parse_goto_def Let_def first second then_do_simps new_GotoNode_def)
qed

text \<open>
  When neither arm has the \<^verbatim>\<open>VARIABLE\<close> marker, a conditional goto of two arms is a
  parser error if both arms guard the same bit, and otherwise parses to a node whose
  zero-arm and one-arm are the two addresses.
\<close>

lemma conditional_goto_guards:
  assumes "spelled_arm a1 bs1 b1" and "spelled_arm a2 bs2 b2"
  shows "parse_goto (arm_string a1 @ arm_string a2 @ rest) 0 =
    (if b1 = b2
     then Inl (ParserError
       ''Illegal symbol found. Conditional goto with different bit constant was expected.''
       (length (arm_string a1) + length (arm_string a2)))
     else Inr (new_GotoNode
         \<lparr>next_if_zero := int32 (int (binary_value (if b1 then bs2 else bs1))),
          next_if_one := int32 (int (binary_value (if b1 then bs1 else bs2)))\<rparr>,
       length (arm_string a1) + length (arm_string a2)))"
  using parse_goto_two_arms [OF assms, of 0 "arm_string a1 @ arm_string a2 @ rest" rest]
  by simp

lemma conditional_goto_examples:
  "parse_goto ''GOTO ONE ONE ZERO IF THE JUMP REGISTER IS EQUAL TO ONE GOTO ONE ZERO ZERO ZERO IF THE JUMP REGISTER IS EQUAL TO ZERO'' 0
     = Inr (\<lparr>g_next = \<lparr>v_value = - 1, v_type = BIT\<rparr>, next_if_zero = 8, next_if_one = 6\<rparr>, 116)
   \<and> parse_goto ''GOTO ONE IF THE JUMP REGISTER IS ZERO GOTO ONE ZERO IF THE JUMP REGISTER IS ZERO'' 0
     = Inl (ParserError
         ''Illegal symbol found. Conditional goto with different bit constant was expected.'' 80)"
proof -
  have "parse_goto ''GOTO ONE ONE ZERO IF THE JUMP REGISTER IS EQUAL TO ONE GOTO ONE ZERO ZERO ZERO IF THE JUMP REGISTER IS EQUAL TO ZERO'' 0
     = Inr (\<lparr>g_next = \<lparr>v_value = - 1, v_type = BIT\<rparr>, next_if_zero = 8, next_if_one = 6\<rparr>, 116)"
    using conditional_goto_guards [of
      "\<lparr>goto_text = ''GOTO'', address_texts = ['' ONE'', '' ONE'', '' ZERO''],
        if_text = '' IF THE JUMP REGISTER IS'', equal_to_text = '' EQUAL TO'',
        bit_text = '' ONE''\<rparr>"
      "[True, True, False]" True
      "\<lparr>goto_text = '' GOTO'', address_texts = ['' ONE'', '' ZERO'', '' ZERO'', '' ZERO''],
        if_text = '' IF THE JUMP REGISTER IS'', equal_to_text = '' EQUAL TO'',
        bit_text = '' ZERO''\<rparr>"
      "[True, False, False, False]" False "[]"]
    by (simp add: spelled_arm_def spelled_bits_def spells_def bit_symbol_def arm_string_def
        GOTO_def IF_THE_JUMP_REGISTER_IS_def EQUAL_TO_def ZERO_def ONE_def is_whitespace_def
        binary_value_def int32_def new_GotoNode_def)
  moreover
  have "parse_goto ''GOTO ONE IF THE JUMP REGISTER IS ZERO GOTO ONE ZERO IF THE JUMP REGISTER IS ZERO'' 0
     = Inl (ParserError
         ''Illegal symbol found. Conditional goto with different bit constant was expected.'' 80)"
    using conditional_goto_guards [of
      "\<lparr>goto_text = ''GOTO'', address_texts = ['' ONE''],
        if_text = '' IF THE JUMP REGISTER IS'', equal_to_text = [], bit_text = '' ZERO''\<rparr>"
      "[True]" False
      "\<lparr>goto_text = '' GOTO'', address_texts = ['' ONE'', '' ZERO''],
        if_text = '' IF THE JUMP REGISTER IS'', equal_to_text = [], bit_text = '' ZERO''\<rparr>"
      "[True, False]" False "[]"]
    by (simp add: spelled_arm_def spelled_bits_def spells_def bit_symbol_def arm_string_def
        GOTO_def IF_THE_JUMP_REGISTER_IS_def EQUAL_TO_def ZERO_def ONE_def is_whitespace_def)
  ultimately show ?thesis
    by simp
qed

text \<open>
  C9. The claim: a conditional goto whose arms guard the same bit is a parser error, and
  one whose arms guard 0 and 1 parses. The grammar in the head of the source allows
  \<^verbatim>\<open>GOTO [VARIABLE] <bits>\<close> in both arms, and \<^verbatim>\<open>parse_goto\<close> looks for the marker in
  the first arm; in the second arm it calls \<^verbatim>\<open>parse_bits\<close> at once. So a goto with the
  guards 0 and 1 and the marker in its second arm is a parser error, while the same goto
  with the marker in its first arm parses.
\<close>

theorem second_arm_variable_marker_rejected:
  "parse_goto ''GOTO ONE IF THE JUMP REGISTER IS ZERO GOTO VARIABLE ONE ZERO IF THE JUMP REGISTER IS ONE'' 0
     = Inl (ParserError ''Illegal symbol found. Bit constant was expected.'' 43)
   \<and> parse_goto ''GOTO VARIABLE ONE IF THE JUMP REGISTER IS ZERO GOTO ONE ZERO IF THE JUMP REGISTER IS ONE'' 0
     = Inr (\<lparr>g_next = \<lparr>v_value = - 1, v_type = BIT\<rparr>, next_if_zero = 1, next_if_one = 2\<rparr>, 88)"
  by code_simp

section \<open>The line loop\<close>

lemma next_line_number_parsed:
  assumes "parse_goto inp p = Inr (g, p')"
  shows "next_line_number g s =
    Inr (if v_value (g_next g) > - 1 then v_value (g_next g)
         else if next_if_zero g > - 1 \<and> jump_register s = 0 then next_if_zero g
         else if next_if_one g > - 1 \<and> jump_register s = 1 then next_if_one g
         else - 1, s)"
  using parse_goto_type [OF assms] by (simp add: next_line_number_def)

lemma CodeNode_run_first_line:
  assumes "0 \<le> first_line_number code" and "lines code (first_line_number code) = Some line"
  shows "CodeNode_run code s = run_while code (first_line_number code) s"
  using assms by (subst run_while.simps) (simp add: CodeNode_run_def)

text \<open>
  C7. Let a line numbered \<open>n\<close> be executed in the loop and its instruction succeed. A
  goto built by \<^verbatim>\<open>parse_goto\<close> resolves to its direct target if it has one, otherwise
  to the zero-arm or one-arm that matches the jump register, otherwise to none. The run
  halts when the line has no goto or no target is resolved, stops with a runtime error
  when the resolved line does not exist, and otherwise goes on with the resolved line.
  The entry line of \<^verbatim>\<open>CodeNode::run\<close>, which the source handles before the loop, is
  treated the same way.
\<close>

theorem next_line_resolution:
  assumes "parse_goto inp p = Inr (g, p')"
    and "0 \<le> n" and "lines code n = Some line"
    and "run_instruction (instruction line) s = Inr s1"
  defines "target \<equiv>
     (if v_value (g_next g) > - 1 then v_value (g_next g)
      else if next_if_zero g > - 1 \<and> jump_register s1 = 0 then next_if_zero g
      else if next_if_one g > - 1 \<and> jump_register s1 = 1 then next_if_one g
      else - 1)"
  shows "next_line_number g s1 = Inr (target, s1)
    \<and> (go line = None \<longrightarrow> run_while code n s = Some (Inr s1))
    \<and> (go line = Some g \<longrightarrow>
         (target < 0 \<longrightarrow> run_while code n s = Some (Inr s1))
       \<and> (0 \<le> target \<and> lines code target = None \<longrightarrow>
            run_while code n s = Some (Inl (RuntimeError
              (''No line exists with number '' @ to_string target @ ''.''))))
       \<and> (0 \<le> target \<and> lines code target \<noteq> None \<longrightarrow>
            run_while code n s = run_while code target s1))
    \<and> (first_line_number code = n \<longrightarrow> CodeNode_run code s = run_while code n s)"
proof -
  have r: "next_line_number g s1 = Inr (target, s1)"
    unfolding target_def using assms(1) by (rule next_line_number_parsed)
  have none: "run_while code n s = Some (Inr s1)" if "go line = None"
    using assms(2-4) that by (subst run_while.simps) simp
  have some: "run_while code n s = run_while code target s1" if "go line = Some g"
    using assms(2-4) that r by (subst run_while.simps) simp
  have halt: "run_while code target s1 = Some (Inr s1)" if "target < 0"
    using that by (subst run_while.simps) simp
  have missing: "run_while code target s1 = Some (Inl (RuntimeError
      (''No line exists with number '' @ to_string target @ ''.'')))"
    if "0 \<le> target" "lines code target = None"
    using that by (subst run_while.simps) simp
  have entry: "CodeNode_run code s = run_while code n s" if "first_line_number code = n"
    using assms(2,3) that by (simp add: CodeNode_run_first_line)
  from r none some halt missing entry show ?thesis
    by simp
qed

lemma parse_branch_goto:
  "parse_goto ''GOTO ONE ZERO IF THE JUMP REGISTER IS ONE GOTO ONE ONE IF THE JUMP REGISTER IS ZERO'' 0
     = Inr (branch_goto, 83)"
  using parse_goto_two_arms [of
      "\<lparr>goto_text = ''GOTO'', address_texts = ['' ONE'', '' ZERO''],
        if_text = '' IF THE JUMP REGISTER IS'', equal_to_text = [], bit_text = '' ONE''\<rparr>"
      "[True, False]" True
      "\<lparr>goto_text = '' GOTO'', address_texts = ['' ONE'', '' ONE''],
        if_text = '' IF THE JUMP REGISTER IS'', equal_to_text = [], bit_text = '' ZERO''\<rparr>"
      "[True, True]" False 0
      "''GOTO ONE ZERO IF THE JUMP REGISTER IS ONE GOTO ONE ONE IF THE JUMP REGISTER IS ZERO''"
      "[]"]
  by (simp add: spelled_arm_def spelled_bits_def spells_def bit_symbol_def arm_string_def
      GOTO_def IF_THE_JUMP_REGISTER_IS_def ZERO_def ONE_def is_whitespace_def
      binary_value_def int32_def branch_goto_def)

theorem next_line_resolution_witness:
  "parse_goto ''GOTO ONE ZERO IF THE JUMP REGISTER IS ONE GOTO ONE ONE IF THE JUMP REGISTER IS ZERO'' 0
     = Inr (branch_goto, 83)
   \<and> run_while branch_program 0 (initial_state [0])
     = Some (Inl (RuntimeError ''No line exists with number 3.''))
   \<and> run_while branch_program 0 (initial_state [1])
     = Some (Inr \<lparr>jump_register = 1, memory = Map.empty, output_buffer = [], cin = [],
                  cout = [1]\<rparr>)
   \<and> CodeNode_run branch_program (initial_state [1])
     = Some (Inr \<lparr>jump_register = 1, memory = Map.empty, output_buffer = [], cin = [],
                  cout = [1]\<rparr>)"
proof -
  note p = parse_branch_goto
  let ?l0 = "\<lparr>line_number = 0, instruction = CommandNode (- 1), go = Some branch_goto\<rparr>"
  let ?l2 = "\<lparr>line_number = 2, instruction = CommandNode 1, go = None\<rparr>"
  let ?s0 = "\<lparr>jump_register = 0, memory = Map.empty, output_buffer = [], cin = [],
               cout = []\<rparr>"
  let ?s1 = "\<lparr>jump_register = 1, memory = Map.empty, output_buffer = [], cin = [],
               cout = []\<rparr>"
  let ?s2 = "\<lparr>jump_register = 1, memory = Map.empty, output_buffer = [], cin = [],
               cout = [1]\<rparr>"
  have l0: "lines branch_program 0 = Some ?l0" and l2: "lines branch_program 2 = Some ?l2"
    and l3: "lines branch_program 3 = None"
    by (simp_all add: branch_program_def)
  have r0: "run_instruction (instruction ?l0) (initial_state [0]) = Inr ?s0"
    and r1: "run_instruction (instruction ?l0) (initial_state [1]) = Inr ?s1"
    by (simp_all add: read_bit_def memory_write_def initial_state_def)
  have r2: "run_instruction (instruction ?l2) ?s1 = Inr ?s2"
    by (simp add: print_bit_def print_ascii_def)
  from next_line_resolution [OF p _ l0 r0] l3
  have a: "run_while branch_program 0 (initial_state [0])
     = Some (Inl (RuntimeError ''No line exists with number 3.''))"
    by (simp add: branch_goto_def new_GotoNode_def to_string_def to_string_nat.simps)
  from next_line_resolution [OF p _ l0 r1] l2
  have b: "run_while branch_program 0 (initial_state [1]) = run_while branch_program 2 ?s1"
    and d: "CodeNode_run branch_program (initial_state [1])
      = run_while branch_program 0 (initial_state [1])"
    by (simp_all add: branch_goto_def new_GotoNode_def branch_program_def)
  from next_line_resolution [OF p _ l2 r2]
  have c: "run_while branch_program 2 ?s1 = Some (Inr ?s2)"
    by simp
  from p a b c d show ?thesis
    by simp
qed

end
